theory Spec2Isabelle
  imports Main
begin

section \<open>The schema loader \<open>scripts/load_schema.py\<close>\<close>

text \<open>
  The script reads two environment variables, asks the Directus instance for its OpenAPI
  document, takes the value at \<open>components.schemas\<close> out of it and writes that value to
  \<open>reference/schema.json\<close>. Everything outside the script is an input of the model: the
  environment, what \<open>urlopen\<close> does with the request, what reading and parsing the body
  gives, and whether the three file-system calls raise. Text is held as the list of its
  UTF-8 bytes, so a character beyond ASCII is several \<^typ>\<open>char\<close>s.
\<close>

subsection \<open>Python values and exceptions\<close>

text \<open>
  The three \<open>except\<close> clauses of \<open>load_schema\<close> tell three kinds of exception apart:
  \<open>HTTPError\<close> (with \<open>code\<close> and \<open>reason\<close>), any other \<open>URLError\<close> (with \<open>reason\<close>), and
  every other subclass of \<open>Exception\<close>, of which the handler prints the class name and the
  message.
\<close>

datatype exn =
    HTTPError int string
  | URLError string
  | OtherError string string

text \<open>
  What \<open>json.loads\<close> returns. A float is carried by the text with which Python's JSON
  encoder renders it (\<open>float.__repr__\<close>, or \<open>NaN\<close>, \<open>Infinity\<close>, \<open>-Infinity\<close>); a \<open>dict\<close> is
  the list of its items in insertion order.
\<close>

datatype json =
    JNull
  | JBool bool
  | JInt int
  | JFloat string
  | JStr string
  | JArr "json list"
  | JObj "(string \<times> json) list"

text \<open>A text between single quotes, as Python's messages and the script's hints have it.\<close>

definition sq :: "string \<Rightarrow> string" where
  "sq s = [CHR 0x27] @ s @ [CHR 0x27]"

fun py_type_name :: "json \<Rightarrow> string" where
  "py_type_name JNull = ''NoneType''"
| "py_type_name (JBool _) = ''bool''"
| "py_type_name (JInt _) = ''int''"
| "py_type_name (JFloat _) = ''float''"
| "py_type_name (JStr _) = ''str''"
| "py_type_name (JArr _) = ''list''"
| "py_type_name (JObj _) = ''dict''"

text \<open>\<open>bool(v)\<close>: \<open>None\<close>, \<open>False\<close>, zero and the empty containers are false.\<close>

fun truthy :: "json \<Rightarrow> bool" where
  "truthy JNull = False"
| "truthy (JBool b) = b"
| "truthy (JInt i) = (i \<noteq> 0)"
| "truthy (JFloat r) = (r \<noteq> ''0.0'' \<and> r \<noteq> ''-0.0'')"
| "truthy (JStr s) = (s \<noteq> [])"
| "truthy (JArr xs) = (xs \<noteq> [])"
| "truthy (JObj kvs) = (kvs \<noteq> [])"

text \<open>
  \<open>v.get(key, default)\<close>: only a \<open>dict\<close> has the method; on any other value the attribute
  lookup raises \<open>AttributeError\<close>.
\<close>

definition attribute_error :: "json \<Rightarrow> exn" where
  "attribute_error v =
     OtherError ''AttributeError''
       (sq (py_type_name v) @ '' object has no attribute '' @ sq ''get'')"

fun py_get :: "json \<Rightarrow> string \<Rightarrow> json \<Rightarrow> exn + json" where
  "py_get (JObj kvs) key dflt =
     Inr (case map_of kvs key of None \<Rightarrow> dflt | Some v \<Rightarrow> v)"
| "py_get v key dflt = Inl (attribute_error v)"

text \<open>
  \<open>len(v)\<close>: the number of items of a container, the number of code points of a string
  (the bytes that are not UTF-8 continuation bytes); a number or a boolean has no length.
\<close>

definition utf8_continuation :: "char \<Rightarrow> bool" where
  "utf8_continuation c = (128 \<le> (of_char c :: nat) \<and> (of_char c :: nat) < 192)"

definition type_error :: "json \<Rightarrow> exn" where
  "type_error v =
     OtherError ''TypeError'' (''object of type '' @ sq (py_type_name v) @ '' has no len()'')"

fun py_len :: "json \<Rightarrow> exn + nat" where
  "py_len (JObj kvs) = Inr (length kvs)"
| "py_len (JArr xs) = Inr (length xs)"
| "py_len (JStr s) = Inr (length (filter (\<lambda>c. \<not> utf8_continuation c) s))"
| "py_len v = Inl (type_error v)"

subsection \<open>Decimal text of an integer\<close>

definition digit_char :: "nat \<Rightarrow> char" where
  "digit_char n = ''0123456789abcdef'' ! n"

fun digits_of :: "nat \<Rightarrow> string" where
  "digits_of n =
     (if n < 10 then [digit_char n]
      else digits_of (n div 10) @ [digit_char (n mod 10)])"

declare digits_of.simps [simp del]

definition str_int :: "int \<Rightarrow> string" where
  "str_int i = (if i < 0 then CHR ''-'' # digits_of (nat (- i)) else digits_of (nat i))"

subsection \<open>The JSON encoder, as \<open>json.dump(..., indent=2, ensure_ascii=False)\<close> runs it\<close>

text \<open>
  With \<open>ensure_ascii=False\<close> a string is quoted and only the quote, the backslash and the
  control characters below U+0020 are escaped; every other byte, so every character
  beyond ASCII, is written as it is.
\<close>

definition escape_char :: "char \<Rightarrow> string" where
  "escape_char c =
     (if c = CHR 0x22 then [CHR 0x5C, CHR 0x22]
      else if c = CHR 0x5C then [CHR 0x5C, CHR 0x5C]
      else if c = CHR 0x0A then [CHR 0x5C, CHR ''n'']
      else if c = CHR 0x0D then [CHR 0x5C, CHR ''r'']
      else if c = CHR 0x09 then [CHR 0x5C, CHR ''t'']
      else if c = CHR 0x08 then [CHR 0x5C, CHR ''b'']
      else if c = CHR 0x0C then [CHR 0x5C, CHR ''f'']
      else if (of_char c :: nat) < 32
        then [CHR 0x5C, CHR ''u'', CHR ''0'', CHR ''0'',
              digit_char (of_char c div 16), digit_char (of_char c mod 16)]
      else [c])"

definition encode_basestring :: "string \<Rightarrow> string" where
  "encode_basestring s = [CHR 0x22] @ concat (map escape_char s) @ [CHR 0x22]"

fun join :: "string \<Rightarrow> string list \<Rightarrow> string" where
  "join sep [] = []"
| "join sep [x] = x"
| "join sep (x # y # ys) = x @ sep @ join sep (y # ys)"

definition newline_indent :: "nat \<Rightarrow> string" where
  "newline_indent level = CHR 0x0A # replicate (2 * level) CHR '' ''"

fun iterencode :: "nat \<Rightarrow> json \<Rightarrow> string" where
  "iterencode level JNull = ''null''"
| "iterencode level (JBool b) = (if b then ''true'' else ''false'')"
| "iterencode level (JInt i) = str_int i"
| "iterencode level (JFloat r) = r"
| "iterencode level (JStr s) = encode_basestring s"
| "iterencode level (JArr xs) =
     (if xs = [] then ''[]''
      else ''['' @ newline_indent (level + 1)
           @ join (CHR '','' # newline_indent (level + 1))
                  (map (iterencode (level + 1)) xs)
           @ newline_indent level @ '']'')"
| "iterencode level (JObj kvs) =
     (if kvs = [] then ''{}''
      else ''{'' @ newline_indent (level + 1)
           @ join (CHR '','' # newline_indent (level + 1))
                  (map (\<lambda>(k, v). encode_basestring k @ '': '' @ iterencode (level + 1) v) kvs)
           @ newline_indent level @ ''}'')"

definition json_dump :: "json \<Rightarrow> string" where
  "json_dump v = iterencode 0 v"

subsection \<open>The world outside the script\<close>

text \<open>
  A \<open>request\<close> is what line 63 hands to \<open>urlopen\<close>: the address, the two headers added in
  lines 59 and 60, and the timeout in seconds. A \<open>response\<close> is what the \<open>with\<close> block sees
  of the reply: its \<open>status\<close>, and the outcome of line 68,
  \<open>json.loads(response.read().decode("utf-8"))\<close>, which is the parsed document or the
  exception that reading, decoding or parsing raised.
\<close>

record request =
  req_url :: string
  req_headers :: "(string \<times> string) list"
  req_timeout :: nat

record response =
  status :: int
  loaded :: "exn + json"

text \<open>
  The inputs of a run. \<open>getenv\<close> is the process environment. \<open>urlopen\<close> answers lines 58
  to 63 (building the \<open>Request\<close> and opening it): an exception or a response.
  \<open>schema_path\<close> is the text of \<open>Path(__file__).parent.parent / "reference" / "schema.json"\<close>.
  \<open>mkdir_raises\<close> and \<open>open_raises\<close> say whether lines 79 and 83 raise; \<open>dump_raises\<close> says
  whether writing the text (line 84, and the flush when the file is closed) raises, and
  after how many bytes had reached the file.
\<close>

record world =
  getenv :: "string \<Rightarrow> string option"
  urlopen :: "request \<Rightarrow> exn + response"
  schema_path :: string
  mkdir_raises :: "exn option"
  open_raises :: "exn option"
  dump_raises :: "(nat \<times> exn) option"

text \<open>
  The part of the file system the script touches: whether the directory \<open>reference\<close>
  exists, and the content of \<open>reference/schema.json\<close> if the file exists.
\<close>

record filesystem =
  reference_dir :: bool
  schema_json :: "string option"

text \<open>
  What a run has done so far: the arguments of its \<open>print\<close> calls in order (each call
  ends its text with a newline), the requests handed to \<open>urlopen\<close>, and the file system.
\<close>

record state =
  printed :: "string list"
  requests :: "request list"
  disk :: filesystem

definition py_print :: "string \<Rightarrow> state \<Rightarrow> state" where
  "py_print line s = s\<lparr>printed := printed s @ [line]\<rparr>"

definition print_all :: "string list \<Rightarrow> state \<Rightarrow> state" where
  "print_all lines s = s\<lparr>printed := printed s @ lines\<rparr>"

subsection \<open>The texts the script prints\<close>

definition cross_mark :: string where
  "cross_mark = [CHR 0xE2, CHR 0x9D, CHR 0x8C]"

definition clipboard :: string where
  "clipboard = [CHR 0xF0, CHR 0x9F, CHR 0x93, CHR 0x8B]"

definition magnifier :: string where
  "magnifier = [CHR 0xF0, CHR 0x9F, CHR 0x94, CHR 0x8D]"

definition check_mark :: string where
  "check_mark = [CHR 0xE2, CHR 0x9C, CHR 0x85]"

definition bar_chart :: string where
  "bar_chart = [CHR 0xF0, CHR 0x9F, CHR 0x93, CHR 0x8A]"

definition rocket :: string where
  "rocket = [CHR 0xF0, CHR 0x9F, CHR 0x9A, CHR 0x80]"

definition bullet :: string where
  "bullet = [CHR 0xE2, CHR 0x80, CHR 0xA2]"

definition rule60 :: string where
  "rule60 = replicate 60 CHR ''=''"

definition todo_heading :: "string \<Rightarrow> string" where
  "todo_heading title = [CHR 0x0A] @ clipboard @ '' TODO - '' @ title"

text \<open>Lines 32 to 49.\<close>

definition missing_token_text :: "string list" where
  "missing_token_text =
    [cross_mark @ '' ERROR: DIRECTUS_TOKEN environment variable is not set'',
     todo_heading ''Directus Configuration Required:'',
     rule60,
     ''1. Create a static API token in your Directus instance:'',
     ''   - Go to: https://directus.bounteer.com/admin/settings/access-tokens'',
     ''   - Click '' @ sq ''Create Token'',
     ''   - Name: '' @ sq ''Schema Export'' @ '' (or similar)'',
     ''   - Set appropriate permissions:'',
     ''     '' @ bullet @ '' Read access to system collections'',
     ''     '' @ bullet @ '' Schema read permissions'',
     ''   - Copy the generated token'',
     [],
     ''2. Set the token as an environment variable:'',
     ''   export DIRECTUS_TOKEN='' @ sq ''your-token-here'',
     [],
     ''3. Re-run this script:'',
     ''   python scripts/load_schema.py'',
     rule60]"

text \<open>Lines 94 to 106.\<close>

definition authentication_text :: "string list" where
  "authentication_text =
    [todo_heading ''Authentication Error:'',
     rule60,
     ''Your DIRECTUS_TOKEN appears to be invalid or expired.'',
     ''Please check the following:'',
     ''1. Token is correctly copied (no extra spaces)'',
     ''2. Token has not expired'',
     ''3. Token has appropriate permissions:'',
     ''   - System collections read access'',
     ''   - Schema read permissions'',
     [],
     ''Generate a new token at:'',
     ''https://directus.bounteer.com/admin/settings/access-tokens'',
     rule60]"

text \<open>Lines 108 to 114.\<close>

definition permission_text :: "string list" where
  "permission_text =
    [todo_heading ''Permission Error:'',
     rule60,
     ''Your token does not have sufficient permissions.'',
     ''Please update the token permissions to include:'',
     ''- System collections: Read access'',
     ''- Schema endpoint: Read access'',
     rule60]"

text \<open>Lines 119 to 127.\<close>

definition connection_text :: "string list" where
  "connection_text =
    [todo_heading ''Connection Issue:'',
     rule60,
     ''Unable to connect to Directus instance.'',
     ''Please check:'',
     ''1. Directus URL is correct: https://directus.bounteer.com'',
     ''2. Directus instance is running and accessible'',
     ''3. Your network connection is working'',
     ''4. No firewall is blocking the connection'',
     rule60]"

definition no_schemas_line :: string where
  "no_schemas_line = cross_mark @ '' ERROR: No schemas found in the OpenAPI specification''"

definition status_line :: "int \<Rightarrow> string" where
  "status_line code = cross_mark @ '' ERROR: Received status code '' @ str_int code"

definition http_error_line :: "int \<Rightarrow> string \<Rightarrow> string" where
  "http_error_line code reason =
     cross_mark @ '' HTTP Error: '' @ str_int code @ '' - '' @ reason"

definition connection_error_line :: "string \<Rightarrow> string" where
  "connection_error_line reason = cross_mark @ '' Connection Error: '' @ reason"

definition unexpected_error_line :: "string \<Rightarrow> string \<Rightarrow> string" where
  "unexpected_error_line name msg =
     cross_mark @ '' Unexpected Error: '' @ name @ '': '' @ msg"

definition fetching_line :: "string \<Rightarrow> string" where
  "fetching_line schema_url = magnifier @ '' Fetching schema from: '' @ schema_url"

definition saved_line :: "string \<Rightarrow> string" where
  "saved_line path = check_mark @ '' Schema successfully saved to: '' @ path"

definition count_line :: "nat \<Rightarrow> string" where
  "count_line n = bar_chart @ '' Schema contains '' @ str_int (int n) @ '' schemas''"

text \<open>Lines 136 to 139 and 143 to 144.\<close>

definition banner :: "string list" where
  "banner = [rule60, rocket @ '' Directus Schema Loader'', rule60, []]"

definition closing :: "string list" where
  "closing = [[], rule60]"

subsection \<open>The script\<close>

text \<open>Lines 28, 29 and 53: the configuration and the address of the request.\<close>

definition default_url :: string where
  "default_url = ''https://directus.bounteer.com''"

definition directus_url :: "world \<Rightarrow> string" where
  "directus_url w = (case getenv w ''DIRECTUS_URL'' of None \<Rightarrow> default_url | Some u \<Rightarrow> u)"

definition directus_token :: "world \<Rightarrow> string option" where
  "directus_token w = getenv w ''DIRECTUS_TOKEN''"

definition schema_url :: "world \<Rightarrow> string" where
  "schema_url w = directus_url w @ ''/server/specs/oas''"

text \<open>Lines 58 to 63: the request with its two headers and the timeout of the call.\<close>

definition build_request :: "string \<Rightarrow> string \<Rightarrow> request" where
  "build_request url token =
     \<lparr>req_url = url,
      req_headers = [(''Authorization'', ''Bearer '' @ token), (''Accept'', ''application/json'')],
      req_timeout = 30\<rparr>"

text \<open>Line 71: \<open>full_spec.get("components", {}).get("schemas", {})\<close>.\<close>

definition extract_schemas :: "json \<Rightarrow> exn + json" where
  "extract_schemas full_spec =
     (case py_get full_spec ''components'' (JObj []) of
        Inl e \<Rightarrow> Inl e
      | Inr components \<Rightarrow> py_get components ''schemas'' (JObj []))"

text \<open>
  Lines 77 to 89. \<open>mkdir(exist_ok=True)\<close> leaves an existing directory alone. Opening the
  file in mode \<open>"w"\<close> creates it or cuts it to length zero before anything is written; if
  the writing raises, the file keeps the bytes that had reached it. The two closing
  \<open>print\<close> calls come after the file is closed, and the second one takes \<open>len\<close> of the value.
\<close>

definition set_schema_json :: "string \<Rightarrow> state \<Rightarrow> state" where
  "set_schema_json text s = s\<lparr>disk := (disk s)\<lparr>schema_json := Some text\<rparr>\<rparr>"

definition save_schema :: "world \<Rightarrow> json \<Rightarrow> state \<Rightarrow> (exn + bool) \<times> state" where
  "save_schema w schema_data s =
     (case mkdir_raises w of
        Some e \<Rightarrow> (Inl e, s)
      | None \<Rightarrow>
          let s1 = s\<lparr>disk := (disk s)\<lparr>reference_dir := True\<rparr>\<rparr> in
          (case open_raises w of
             Some e \<Rightarrow> (Inl e, s1)
           | None \<Rightarrow>
               let s2 = set_schema_json [] s1 in
               (case dump_raises w of
                  Some (n, e) \<Rightarrow> (Inl e, set_schema_json (take n (json_dump schema_data)) s2)
                | None \<Rightarrow>
                    let s3 = set_schema_json (json_dump schema_data) s2;
                        s4 = py_print (saved_line (schema_path w)) s3
                    in (case py_len schema_data of
                          Inl e \<Rightarrow> (Inl e, s4)
                        | Inr n \<Rightarrow> (Inr True, py_print (count_line n) s4)))))"

text \<open>
  Lines 56 to 89, the body of the \<open>try\<close>: it returns a boolean, or an exception leaves it.
  The state reached when the exception is raised is kept.
\<close>

definition try_block :: "world \<Rightarrow> string \<Rightarrow> state \<Rightarrow> (exn + bool) \<times> state" where
  "try_block w token s =
     (let request = build_request (schema_url w) token;
          s1 = s\<lparr>requests := requests s @ [request]\<rparr>
      in case urlopen w request of
           Inl e \<Rightarrow> (Inl e, s1)
         | Inr response \<Rightarrow>
             if status response \<noteq> 200
             then (Inr False, py_print (status_line (status response)) s1)
             else (case loaded response of
                     Inl e \<Rightarrow> (Inl e, s1)
                   | Inr full_spec \<Rightarrow>
                       (case extract_schemas full_spec of
                          Inl e \<Rightarrow> (Inl e, s1)
                        | Inr schema_data \<Rightarrow>
                            if \<not> truthy schema_data
                            then (Inr False, py_print no_schemas_line s1)
                            else save_schema w schema_data s1)))"

text \<open>
  Lines 91 to 132, the three \<open>except\<close> clauses in their order; each ends in
  \<open>return False\<close>, so only what they print is left to say.
\<close>

fun except_clauses :: "exn \<Rightarrow> state \<Rightarrow> state" where
  "except_clauses (HTTPError code reason) s =
     (let s1 = py_print (http_error_line code reason) s
      in if code = 401 then print_all authentication_text s1
         else if code = 403 then print_all permission_text s1
         else s1)"
| "except_clauses (URLError reason) s =
     print_all connection_text (py_print (connection_error_line reason) s)"
| "except_clauses (OtherError name msg) s =
     py_print (unexpected_error_line name msg) s"

text \<open>Lines 24 to 132. \<open>not directus_token\<close> holds for an unset and for an empty variable.\<close>

definition load_schema :: "world \<Rightarrow> state \<Rightarrow> bool \<times> state" where
  "load_schema w s =
     (case directus_token w of
        None \<Rightarrow> (False, print_all missing_token_text s)
      | Some token \<Rightarrow>
          if token = [] then (False, print_all missing_token_text s)
          else
            let s1 = py_print (fetching_line (schema_url w)) s
            in (case try_block w token s1 of
                  (Inr result, s2) \<Rightarrow> (result, s2)
                | (Inl e, s2) \<Rightarrow> (False, except_clauses e s2)))"

text \<open>
  Lines 135 to 145: the banner, the call, the closing lines, and the exit status
  \<open>0 if success else 1\<close>. A run starts with nothing printed and no request made.
\<close>

definition initial :: "filesystem \<Rightarrow> state" where
  "initial fs0 = \<lparr>printed = [], requests = [], disk = fs0\<rparr>"

definition main :: "world \<Rightarrow> filesystem \<Rightarrow> nat \<times> state" where
  "main w fs0 =
     (let (success, s1) = load_schema w (print_all banner (initial fs0))
      in (if success then 0 else 1, print_all closing s1))"

subsection \<open>Notions used to state the properties\<close>

text \<open>Whether a value is a \<open>dict\<close>, the one type on which \<open>.get\<close> exists.\<close>

fun is_dict :: "json \<Rightarrow> bool" where
  "is_dict (JObj _) = True"
| "is_dict _ = False"

text \<open>
  The outcome of a run that made its one request, printed \<open>report\<close> between the fetching
  line and the closing lines, left the file system as it found it and exited with
  status 1.
\<close>

definition failed_run :: "world \<Rightarrow> string \<Rightarrow> filesystem \<Rightarrow> string list \<Rightarrow> nat \<times> state" where
  "failed_run w token fs0 report =
     (1, \<lparr>printed = banner @ [fetching_line (schema_url w)] @ report @ closing,
          requests = [build_request (schema_url w) token],
          disk = fs0\<rparr>)"

subsection \<open>Example inputs\<close>

text \<open>A text between double quotes, to write the expected content of the file.\<close>

definition dq :: "string \<Rightarrow> string" where
  "dq s = [CHR 0x22] @ s @ [CHR 0x22]"


text \<open>The document \<open>{"components": {"schemas": {"A": {"type": "object"}}}}\<close>.\<close>

definition example_spec :: json where
  "example_spec =
     JObj [(''components'',
            JObj [(''schemas'', JObj [(''A'', JObj [(''type'', JStr ''object'')])])])]"


text \<open>The documents \<open>{"components": {"schemas": true}}\<close> and \<open>{"components": null}\<close>.\<close>

definition boolean_spec :: json where
  "boolean_spec = JObj [(''components'', JObj [(''schemas'', JBool True)])]"

definition null_components_spec :: json where
  "null_components_spec = JObj [(''components'', JNull)]"

definition disk_full :: exn where
  "disk_full = OtherError ''OSError'' ''[Errno 28] No space left on device''"

definition read_timeout :: exn where
  "read_timeout = OtherError ''TimeoutError'' ''The read operation timed out''"

text \<open>
  A world is built from an environment and a network; its file-system calls succeed.
  \<open>replies\<close> is a network that answers every request with the given status and body,
  \<open>raises\<close> one on which \<open>urlopen\<close> raises.
\<close>

definition example_world ::
    "(string \<Rightarrow> string option) \<Rightarrow> (request \<Rightarrow> exn + response) \<Rightarrow> world" where
  "example_world env net =
     \<lparr>getenv = env, urlopen = net, schema_path = ''/srv/site/reference/schema.json'',
      mkdir_raises = None, open_raises = None, dump_raises = None\<rparr>"

definition token_env :: "string \<Rightarrow> string option" where
  "token_env = map_of [(''DIRECTUS_TOKEN'', ''secret'')]"


definition empty_token_env :: "string \<Rightarrow> string option" where
  "empty_token_env = map_of [(''DIRECTUS_TOKEN'', [])]"

definition replies :: "int \<Rightarrow> exn + json \<Rightarrow> request \<Rightarrow> exn + response" where
  "replies code body = (\<lambda>_. Inr \<lparr>status = code, loaded = body\<rparr>)"

definition raises :: "exn \<Rightarrow> request \<Rightarrow> exn + response" where
  "raises e = (\<lambda>_. Inl e)"

definition old_disk :: filesystem where
  "old_disk = \<lparr>reference_dir = True, schema_json = Some ''{}''\<rparr>"

definition default_request :: request where
  "default_request =
     \<lparr>req_url = ''https://directus.bounteer.com/server/specs/oas'',
      req_headers = [(''Authorization'', ''Bearer secret''), (''Accept'', ''application/json'')],
      req_timeout = 30\<rparr>"

section \<open>Properties\<close>

subsection \<open>Unfolding a run\<close>

lemmas run_defs = main_def load_schema_def try_block_def save_schema_def directus_token_def
  initial_def print_all_def py_print_def set_schema_json_def Let_def

lemmas run_splits = option.splits sum.splits if_splits prod.splits

lemmas url_defs = schema_url_def directus_url_def default_url_def


lemmas text_defs = json_dump_def encode_basestring_def escape_char_def newline_indent_def
  eval_nat_numeral

lemmas example_defs = example_world_def token_env_def empty_token_env_def
  replies_def raises_def old_disk_def default_request_def build_request_def

text \<open>The \<open>except\<close> clauses only print.\<close>

lemma disk_except_clauses [simp]: "disk (except_clauses e s) = disk s"
  by (cases e) (simp_all add: print_all_def py_print_def Let_def)

lemma requests_except_clauses [simp]: "requests (except_clauses e s) = requests s"
  by (cases e) (simp_all add: print_all_def py_print_def Let_def)

lemma py_get_not_dict: "\<not> is_dict v \<Longrightarrow> py_get v key dflt = Inl (attribute_error v)"
  by (cases v) simp_all

text \<open>
  The encoder leaves every byte from 128 on as it is: with \<open>ensure_ascii=False\<close> no
  character beyond ASCII is escaped.
\<close>

lemma escape_char_beyond_ascii:
  assumes "128 \<le> (of_char c :: nat)"
  shows "escape_char c = [c]"
proof -
  have "c \<noteq> CHR 0x22" "c \<noteq> CHR 0x5C" "c \<noteq> CHR 0x0A" "c \<noteq> CHR 0x0D"
       "c \<noteq> CHR 0x09" "c \<noteq> CHR 0x08" "c \<noteq> CHR 0x0C"
    using assms by auto
  moreover have "\<not> (of_char c :: nat) < 32"
    using assms by simp
  ultimately show ?thesis
    by (simp add: escape_char_def)
qed

lemma encode_basestring_beyond_ascii:
  "\<forall>c \<in> set s. 128 \<le> (of_char c :: nat) \<Longrightarrow> encode_basestring s = dq s"
  by (induction s) (simp_all add: encode_basestring_def dq_def escape_char_beyond_ascii)


subsection \<open>C1: the successful round trip\<close>



subsection \<open>C2: the missing credential\<close>



subsection \<open>C3: HTTP errors\<close>



subsection \<open>C4: only status 200 is a success\<close>

text \<open>
  C4. When \<open>urlopen\<close> returns a response whose status is not 200, also a 2xx one with a
  body, the run prints that status, exits with status 1 and leaves the file system
  alone; a status that \<open>urlopen\<close> raises as \<open>HTTPError\<close> is printed too and the run exits
  with status 1; and a run that exits with status 0 had a response of status 200.
\<close>

theorem only_status_200_succeeds:
  "(\<forall>token response.
       getenv w ''DIRECTUS_TOKEN'' = Some token \<and> token \<noteq> [] \<and>
       urlopen w (build_request (schema_url w) token) = Inr response \<and>
       status response \<noteq> 200 \<longrightarrow>
       main w fs0 = failed_run w token fs0 [status_line (status response)])
   \<and> (\<forall>token code reason.
       getenv w ''DIRECTUS_TOKEN'' = Some token \<and> token \<noteq> [] \<and>
       urlopen w (build_request (schema_url w) token) = Inl (HTTPError code reason) \<longrightarrow>
       fst (main w fs0) = 1 \<and> http_error_line code reason \<in> set (printed (snd (main w fs0))))
   \<and> (fst (main w fs0) = 0 \<longrightarrow>
        (\<exists>token response.
           getenv w ''DIRECTUS_TOKEN'' = Some token \<and>
           urlopen w (build_request (schema_url w) token) = Inr response \<and>
           status response = 200))"
  by (auto simp: run_defs failed_run_def split: run_splits)

text \<open>
  C4, at a 204 response that carries the example document, and at the run that exits
  with status 0.
\<close>

theorem only_status_200_succeeds_witness:
  "main (example_world token_env (replies 204 (Inr example_spec))) old_disk =
     (1, \<lparr>printed = banner
             @ [fetching_line ''https://directus.bounteer.com/server/specs/oas'',
                cross_mark @ '' ERROR: Received status code 204'']
             @ closing,
          requests = [default_request],
          disk = old_disk\<rparr>)
   \<and> fst (main (example_world token_env (replies 200 (Inr example_spec))) old_disk) = 0
   \<and> (\<exists>token response.
         getenv (example_world token_env (replies 200 (Inr example_spec))) ''DIRECTUS_TOKEN''
           = Some token \<and>
         urlopen (example_world token_env (replies 200 (Inr example_spec)))
           (build_request (schema_url (example_world token_env (replies 200 (Inr example_spec))))
              token) = Inr response \<and>
         status response = 200)"
proof -
  have ok: "fst (main (example_world token_env (replies 200 (Inr example_spec))) old_disk) = 0"
    by (simp add: run_defs example_defs example_spec_def extract_schemas_def)
  show ?thesis
    using only_status_200_succeeds
            [of "example_world token_env (replies 204 (Inr example_spec))" old_disk,
             THEN conjunct1, rule_format,
             of "''secret''" "\<lparr>status = 204, loaded = Inr example_spec\<rparr>"]
          only_status_200_succeeds
            [of "example_world token_env (replies 200 (Inr example_spec))" old_disk,
             THEN conjunct2, THEN conjunct2, rule_format, OF ok]
          ok
    by (simp add: example_defs failed_run_def url_defs status_line_def str_int_def
          digits_of.simps digit_char_def)
qed

subsection \<open>C5: missing keys\<close>

text \<open>
  C5, as amended. When the parsed document is a \<open>dict\<close> without the key \<open>components\<close>, or
  a \<open>dict\<close> whose \<open>components\<close> is a \<open>dict\<close> without the key \<open>schemas\<close>, line 71 yields the
  empty mapping and the run ends with the no-schemas line. When the document is not a
  \<open>dict\<close>, or its \<open>components\<close> is not one, line 71 raises \<open>AttributeError\<close> and the run ends
  with the unexpected-error line. Either way the exit status is 1 and the file system
  is as it was.
\<close>

theorem missing_keys_extraction:
  assumes "getenv w ''DIRECTUS_TOKEN'' = Some token" and "token \<noteq> []"
    and "urlopen w (build_request (schema_url w) token) = Inr response"
    and "status response = 200"
    and "loaded response = Inr full_spec"
  shows "(full_spec = JObj entries \<and>
          (map_of entries ''components'' = None \<or>
           map_of entries ''components'' = Some (JObj components) \<and>
           map_of components ''schemas'' = None) \<longrightarrow>
          extract_schemas full_spec = Inr (JObj []) \<and>
          main w fs0 = failed_run w token fs0 [no_schemas_line])
       \<and> (\<not> is_dict full_spec \<longrightarrow>
          extract_schemas full_spec = Inl (attribute_error full_spec) \<and>
          main w fs0 =
            failed_run w token fs0
              [unexpected_error_line ''AttributeError''
                 (sq (py_type_name full_spec) @ '' object has no attribute '' @ sq ''get'')])
       \<and> (full_spec = JObj entries \<and> map_of entries ''components'' = Some v \<and>
          \<not> is_dict v \<longrightarrow>
          extract_schemas full_spec = Inl (attribute_error v) \<and>
          main w fs0 =
            failed_run w token fs0
              [unexpected_error_line ''AttributeError''
                 (sq (py_type_name v) @ '' object has no attribute '' @ sq ''get'')])"
  using assms
  by (auto simp: run_defs failed_run_def extract_schemas_def py_get_not_dict attribute_error_def)

text \<open>
  C5 as it was stated fails at the document \<open>{"components": null}\<close>, in which the key
  \<open>schemas\<close> is missing: the lookup raises and the run ends with the unexpected-error
  line, not with the no-schemas line. It fails likewise at the document \<open>[]\<close>.
\<close>

theorem missing_keys_counterexample:
  "extract_schemas null_components_spec =
     Inl (OtherError ''AttributeError''
            (sq ''NoneType'' @ '' object has no attribute '' @ sq ''get''))
   \<and> main (example_world token_env (replies 200 (Inr null_components_spec))) old_disk =
     (1, \<lparr>printed = banner
             @ [fetching_line ''https://directus.bounteer.com/server/specs/oas'',
                cross_mark @ '' Unexpected Error: AttributeError: '' @ sq ''NoneType''
                  @ '' object has no attribute '' @ sq ''get'']
             @ closing,
          requests = [default_request],
          disk = old_disk\<rparr>)
   \<and> no_schemas_line \<notin> set (printed (snd
         (main (example_world token_env (replies 200 (Inr null_components_spec))) old_disk)))
   \<and> extract_schemas (JArr []) =
     Inl (OtherError ''AttributeError''
            (sq ''list'' @ '' object has no attribute '' @ sq ''get''))"
  by (simp add: run_defs example_defs null_components_spec_def extract_schemas_def
        attribute_error_def url_defs unexpected_error_line_def fetching_line_def
        no_schemas_line_def banner_def closing_def rule60_def cross_mark_def magnifier_def
        rocket_def sq_def eval_nat_numeral)

text \<open>
  C5 as amended, at the documents \<open>{}\<close> and \<open>{"components": {}}\<close>, which end with the
  no-schemas line, and at \<open>[]\<close>, which ends with the unexpected-error line.
\<close>

theorem missing_keys_extraction_witness:
  "main (example_world token_env (replies 200 (Inr (JObj [])))) old_disk =
     (1, \<lparr>printed = banner
             @ [fetching_line ''https://directus.bounteer.com/server/specs/oas'',
                cross_mark @ '' ERROR: No schemas found in the OpenAPI specification'']
             @ closing,
          requests = [default_request],
          disk = old_disk\<rparr>)
   \<and> main (example_world token_env (replies 200 (Inr (JObj [(''components'', JObj [])]))))
          old_disk =
     (1, \<lparr>printed = banner
             @ [fetching_line ''https://directus.bounteer.com/server/specs/oas'',
                cross_mark @ '' ERROR: No schemas found in the OpenAPI specification'']
             @ closing,
          requests = [default_request],
          disk = old_disk\<rparr>)
   \<and> main (example_world token_env (replies 200 (Inr (JArr [])))) old_disk =
     (1, \<lparr>printed = banner
             @ [fetching_line ''https://directus.bounteer.com/server/specs/oas'',
                cross_mark @ '' Unexpected Error: AttributeError: '' @ sq ''list''
                  @ '' object has no attribute '' @ sq ''get'']
             @ closing,
          requests = [default_request],
          disk = old_disk\<rparr>)"
  using missing_keys_extraction
          [where w = "example_world token_env (replies 200 (Inr (JObj [])))"
             and token = "''secret''"
             and response = "\<lparr>status = 200, loaded = Inr (JObj [])\<rparr>"
             and full_spec = "JObj []" and entries = "[]" and components = "[]"
             and v = JNull and ?fs0.0 = old_disk,
           THEN conjunct1]
        missing_keys_extraction
          [where w = "example_world token_env
                        (replies 200 (Inr (JObj [(''components'', JObj [])])))"
             and token = "''secret''"
             and response = "\<lparr>status = 200, loaded = Inr (JObj [(''components'', JObj [])])\<rparr>"
             and full_spec = "JObj [(''components'', JObj [])]"
             and entries = "[(''components'', JObj [])]" and components = "[]"
             and v = JNull and ?fs0.0 = old_disk,
           THEN conjunct1]
        missing_keys_extraction
          [where w = "example_world token_env (replies 200 (Inr (JArr [])))"
             and token = "''secret''"
             and response = "\<lparr>status = 200, loaded = Inr (JArr [])\<rparr>"
             and full_spec = "JArr []" and entries = "[]" and components = "[]"
             and v = JNull and ?fs0.0 = old_disk,
           THEN conjunct2, THEN conjunct1]
  by (simp add: example_defs failed_run_def url_defs no_schemas_line_def
        unexpected_error_line_def)

subsection \<open>C6: the empty schema section\<close>

text \<open>
  C6. When the value extracted at \<open>components.schemas\<close> is the empty mapping (or any
  other value that Python counts as false), the run prints the line
  \<open>ERROR: No schemas found in the OpenAPI specification\<close> after the cross mark, exits with
  status 1 and leaves the file system alone; and a run that exits with status 0
  extracted a value that is not empty.
\<close>

theorem empty_schema_reported:
  "(\<forall>token response full_spec schema_data.
       getenv w ''DIRECTUS_TOKEN'' = Some token \<and> token \<noteq> [] \<and>
       urlopen w (build_request (schema_url w) token) = Inr response \<and>
       status response = 200 \<and> loaded response = Inr full_spec \<and>
       extract_schemas full_spec = Inr schema_data \<and>
       (schema_data = JObj [] \<or> \<not> truthy schema_data) \<longrightarrow>
       main w fs0 = failed_run w token fs0 [no_schemas_line])
   \<and> (fst (main w fs0) = 0 \<longrightarrow>
        (\<exists>token response full_spec schema_data.
           getenv w ''DIRECTUS_TOKEN'' = Some token \<and>
           urlopen w (build_request (schema_url w) token) = Inr response \<and>
           loaded response = Inr full_spec \<and>
           extract_schemas full_spec = Inr schema_data \<and>
           truthy schema_data \<and> schema_data \<noteq> JObj []))"
  by (auto simp: run_defs failed_run_def split: run_splits)

text \<open>C6, at the body \<open>{"components": {"schemas": {}}}\<close>, and at the run that succeeds.\<close>

theorem empty_schema_reported_witness:
  "main (example_world token_env
           (replies 200 (Inr (JObj [(''components'', JObj [(''schemas'', JObj [])])]))))
        old_disk =
     (1, \<lparr>printed = banner
             @ [fetching_line ''https://directus.bounteer.com/server/specs/oas'',
                cross_mark @ '' ERROR: No schemas found in the OpenAPI specification'']
             @ closing,
          requests = [default_request],
          disk = old_disk\<rparr>)
   \<and> fst (main (example_world token_env (replies 200 (Inr example_spec))) old_disk) = 0
   \<and> (\<exists>schema_data.
         extract_schemas example_spec = Inr schema_data \<and> truthy schema_data \<and>
         schema_data \<noteq> JObj [])"
proof -
  have ok: "fst (main (example_world token_env (replies 200 (Inr example_spec))) old_disk) = 0"
    by (simp add: run_defs example_defs example_spec_def extract_schemas_def)
  show ?thesis
    using empty_schema_reported
            [of "example_world token_env
                   (replies 200 (Inr (JObj [(''components'', JObj [(''schemas'', JObj [])])])))"
                old_disk,
             THEN conjunct1, rule_format,
             of "''secret''"
                "\<lparr>status = 200,
                  loaded = Inr (JObj [(''components'', JObj [(''schemas'', JObj [])])])\<rparr>"
                "JObj [(''components'', JObj [(''schemas'', JObj [])])]" "JObj []"]
          empty_schema_reported
            [of "example_world token_env (replies 200 (Inr example_spec))" old_disk,
             THEN conjunct2, rule_format, OF ok]
          ok
    by (auto simp: example_defs failed_run_def url_defs no_schemas_line_def
          extract_schemas_def)
qed

subsection \<open>C7: transport failures\<close>

text \<open>
  C7, as amended. When \<open>urlopen\<close> raises a \<open>URLError\<close> that is not an \<open>HTTPError\<close>, which
  is how \<open>urllib\<close> reports a failed name lookup, a refused connection, a failed TLS
  handshake or a timeout while connecting and sending, the run prints the connection
  line with the reason and the nine lines of connectivity hints, exits with status 1 and
  leaves the file system alone. A failure that reaches the script as any other
  exception, from \<open>urlopen\<close> or from reading the body of a 200 response, ends the run with
  the unexpected-error line, exit status 1 and the file system as it was.
\<close>

theorem url_error_reported:
  assumes "getenv w ''DIRECTUS_TOKEN'' = Some token" and "token \<noteq> []"
  shows "(urlopen w (build_request (schema_url w) token) = Inl (URLError reason) \<longrightarrow>
            main w fs0 =
              failed_run w token fs0 (connection_error_line reason # connection_text))
       \<and> (urlopen w (build_request (schema_url w) token) = Inl (OtherError name msg) \<or>
           urlopen w (build_request (schema_url w) token) = Inr response \<and>
           status response = 200 \<and> loaded response = Inl (OtherError name msg) \<longrightarrow>
            main w fs0 = failed_run w token fs0 [unexpected_error_line name msg])"
  using assms by (auto simp: run_defs failed_run_def)

text \<open>
  C7 as it was stated fails when the 30 seconds run out while the body of a 200 response
  is read: \<open>response.read()\<close> in line 68 raises \<open>TimeoutError\<close>, which is not a \<open>URLError\<close>,
  so the run ends with the unexpected-error line and prints none of the connectivity
  hints. The same holds when the timeout strikes inside \<open>urlopen\<close> while it waits for the
  status line, which \<open>urllib\<close> does not wrap either.
\<close>

theorem read_timeout_counterexample:
  "main (example_world token_env (replies 200 (Inl read_timeout))) old_disk =
     (1, \<lparr>printed = banner
             @ [fetching_line ''https://directus.bounteer.com/server/specs/oas'',
                cross_mark @ '' Unexpected Error: TimeoutError: The read operation timed out'']
             @ closing,
          requests = [default_request],
          disk = old_disk\<rparr>)
   \<and> todo_heading ''Connection Issue:'' \<notin> set (printed (snd
         (main (example_world token_env (replies 200 (Inl read_timeout))) old_disk)))
   \<and> main (example_world token_env (raises read_timeout)) old_disk =
       main (example_world token_env (replies 200 (Inl read_timeout))) old_disk"
  by (simp add: run_defs example_defs read_timeout_def url_defs unexpected_error_line_def
        fetching_line_def todo_heading_def banner_def closing_def rule60_def eval_nat_numeral)

text \<open>
  C7 as amended, at a refused connection raised as \<open>URLError\<close>, and at the timeout while
  the body is read.
\<close>

theorem url_error_reported_witness:
  "main (example_world token_env (raises (URLError ''[Errno 111] Connection refused'')))
        old_disk =
     (1, \<lparr>printed = banner
             @ [fetching_line ''https://directus.bounteer.com/server/specs/oas'',
                cross_mark @ '' Connection Error: [Errno 111] Connection refused'']
             @ connection_text @ closing,
          requests = [default_request],
          disk = old_disk\<rparr>)
   \<and> main (example_world token_env (replies 200 (Inl read_timeout))) old_disk =
     (1, \<lparr>printed = banner
             @ [fetching_line ''https://directus.bounteer.com/server/specs/oas'',
                cross_mark @ '' Unexpected Error: TimeoutError: The read operation timed out'']
             @ closing,
          requests = [default_request],
          disk = old_disk\<rparr>)"
  using url_error_reported
          [where w = "example_world token_env
                        (raises (URLError ''[Errno 111] Connection refused''))"
             and token = "''secret''" and reason = "''[Errno 111] Connection refused''"
             and ?fs0.0 = old_disk,
           THEN conjunct1]
        url_error_reported
          [where w = "example_world token_env (replies 200 (Inl read_timeout))"
             and token = "''secret''" and ?fs0.0 = old_disk
             and name = "''TimeoutError''" and msg = "''The read operation timed out''"
             and response = "\<lparr>status = 200, loaded = Inl read_timeout\<rparr>",
           THEN conjunct2]
  by (simp add: example_defs read_timeout_def failed_run_def url_defs
        connection_error_line_def unexpected_error_line_def)

subsection \<open>C8: when the output file is touched\<close>

text \<open>
  C8, as amended. The content of \<open>reference/schema.json\<close> differs after a run only if the
  run had a credential, a response of status 200, a parsed document and an extracted
  value that is not empty, and creating the directory and opening the file raised
  nothing; so every run that fails at an earlier step leaves the file as it was. In a
  run that gets that far the file is opened for writing and ends as the serialized value,
  or as the bytes of it that had reached the file when the writing raised; and such a
  run exits with status 0 exactly when the writing raised nothing and the extracted
  value has a length.
\<close>

theorem output_file_opened_only_after_extraction:
  "(schema_json (disk (snd (main w fs0))) \<noteq> schema_json fs0 \<longrightarrow>
      (\<exists>token response full_spec schema_data.
         getenv w ''DIRECTUS_TOKEN'' = Some token \<and> token \<noteq> [] \<and>
         urlopen w (build_request (schema_url w) token) = Inr response \<and>
         status response = 200 \<and> loaded response = Inr full_spec \<and>
         extract_schemas full_spec = Inr schema_data \<and> truthy schema_data \<and>
         mkdir_raises w = None \<and> open_raises w = None))
   \<and> (\<forall>token response full_spec schema_data.
         getenv w ''DIRECTUS_TOKEN'' = Some token \<and> token \<noteq> [] \<and>
         urlopen w (build_request (schema_url w) token) = Inr response \<and>
         status response = 200 \<and> loaded response = Inr full_spec \<and>
         extract_schemas full_spec = Inr schema_data \<and> truthy schema_data \<and>
         mkdir_raises w = None \<and> open_raises w = None \<longrightarrow>
         schema_json (disk (snd (main w fs0))) =
           Some (case dump_raises w of
                   None \<Rightarrow> json_dump schema_data
                 | Some (n, e) \<Rightarrow> take n (json_dump schema_data)) \<and>
         (fst (main w fs0) = 0 \<longleftrightarrow>
            dump_raises w = None \<and> (\<exists>n. py_len schema_data = Inr n)))"
  by (auto simp: run_defs split: run_splits)

text \<open>
  C8 as it was stated fails at the body \<open>{"components": {"schemas": true}}\<close>: the value
  \<open>True\<close> is not empty, so the file that held \<open>{}\<close> is overwritten with \<open>true\<close>; then
  \<open>len(schema_data)\<close> in line 87 raises \<open>TypeError\<close> and the run exits with status 1. It
  fails as well when the writing raises, here with a full disk before any byte is
  written: the run exits with status 1 and the file, opened in mode \<open>"w"\<close>, is empty.
\<close>

theorem failed_run_changes_file_counterexample:
  "schema_json old_disk = Some ''{}''
   \<and> main (example_world token_env (replies 200 (Inr boolean_spec))) old_disk =
     (1, \<lparr>printed = banner
             @ [fetching_line ''https://directus.bounteer.com/server/specs/oas'',
                saved_line ''/srv/site/reference/schema.json'',
                cross_mark @ '' Unexpected Error: TypeError: object of type '' @ sq ''bool''
                  @ '' has no len()'']
             @ closing,
          requests = [default_request],
          disk = \<lparr>reference_dir = True, schema_json = Some ''true''\<rparr>\<rparr>)
   \<and> fst (main ((example_world token_env (replies 200 (Inr example_spec)))
                   \<lparr>dump_raises := Some (0, disk_full)\<rparr>) old_disk) = 1
   \<and> schema_json (disk (snd (main ((example_world token_env (replies 200 (Inr example_spec)))
                                      \<lparr>dump_raises := Some (0, disk_full)\<rparr>) old_disk))) =
       Some []"
  by (simp add: run_defs example_defs boolean_spec_def example_spec_def extract_schemas_def
        json_dump_def type_error_def disk_full_def unexpected_error_line_def url_defs)

text \<open>
  C8 as amended, at the run that overwrites \<open>{}\<close> with the example schemas, and at a run
  whose writing raises after three bytes.
\<close>

theorem output_file_opened_only_after_extraction_witness:
  "schema_json (disk (snd (main (example_world token_env (replies 200 (Inr example_spec)))
                                old_disk))) \<noteq> schema_json old_disk
   \<and> (\<exists>token response full_spec schema_data.
         getenv (example_world token_env (replies 200 (Inr example_spec))) ''DIRECTUS_TOKEN''
           = Some token \<and> token \<noteq> [] \<and>
         urlopen (example_world token_env (replies 200 (Inr example_spec)))
           (build_request (schema_url (example_world token_env (replies 200 (Inr example_spec))))
              token) = Inr response \<and>
         status response = 200 \<and> loaded response = Inr full_spec \<and>
         extract_schemas full_spec = Inr schema_data \<and> truthy schema_data)
   \<and> schema_json (disk (snd (main ((example_world token_env (replies 200 (Inr example_spec)))
                                      \<lparr>dump_raises := Some (3, disk_full)\<rparr>) old_disk))) =
       Some [CHR ''{'', CHR 0x0A, CHR '' '']
   \<and> fst (main ((example_world token_env (replies 200 (Inr example_spec)))
                   \<lparr>dump_raises := Some (3, disk_full)\<rparr>) old_disk) \<noteq> 0"
proof -
  have changed:
    "schema_json (disk (snd (main (example_world token_env (replies 200 (Inr example_spec)))
                                  old_disk))) \<noteq> schema_json old_disk"
    by (simp add: run_defs example_defs example_spec_def extract_schemas_def text_defs)
  show ?thesis
    using changed
      output_file_opened_only_after_extraction
        [of "example_world token_env (replies 200 (Inr example_spec))" old_disk,
         THEN conjunct1, rule_format, OF changed]
      output_file_opened_only_after_extraction
        [of "(example_world token_env (replies 200 (Inr example_spec)))
               \<lparr>dump_raises := Some (3, disk_full)\<rparr>" old_disk,
         THEN conjunct2, rule_format,
         of "''secret''" "\<lparr>status = 200, loaded = Inr example_spec\<rparr>" example_spec
            "JObj [(''A'', JObj [(''type'', JStr ''object'')])]"]
    by (auto simp: example_defs example_spec_def extract_schemas_def url_defs text_defs)
qed

subsection \<open>C9: the exit status\<close>



subsection \<open>C10: the base address\<close>



end
